theory Spec2Isabelle
  imports Main
begin

section \<open>Data model (schema.ts)\<close>

text \<open>
  Timestamps are milliseconds since the epoch, the resolution of a JavaScript \<open>Date\<close>.
  The application clock (\<open>new Date()\<close>) and the datastore clock (\<open>NOW()\<close>) are one
  clock, read once per request and passed to every handler as \<open>now\<close>; the datastore
  session runs in UTC, so its interval of a day is \<open>day_ms\<close> milliseconds.
  A nullable column is an \<open>option\<close>. Only the columns that the handlers below read or
  write are kept.
\<close>

type_synonym timestamp = int

definition hour_ms :: int where
  "hour_ms = 3600000"

definition day_ms :: int where
  "day_ms = 86400000"

text \<open>
  The time zone of the server, which neither routes.ts nor start.js sets: the two
  conversions of ECMAScript, \<open>LocalTime\<close> from a time value to local time and \<open>UTC\<close>
  from local time back. \<open>TimeClip\<close> is the range of a \<open>Date\<close>: a time value further
  than 8.64e15 ms from the epoch is no time value, and the \<open>Date\<close> is invalid.
\<close>

record zone =
  LocalTime :: "timestamp \<Rightarrow> timestamp"
  UTC :: "timestamp \<Rightarrow> timestamp"

definition TimeClip :: "int \<Rightarrow> timestamp option" where
  "TimeClip t = (if \<bar>t\<bar> \<le> 8640000000000000 then Some t else None)"

text \<open>
  \<open>expiresAt.setDate(expiresAt.getDate() + n)\<close> on a \<open>Date\<close> of time value \<open>t\<close>: the
  local date moves by \<open>n\<close> calendar days, the local time of day stays, and the result is
  converted back and clipped.
\<close>

definition setDate_plus :: "zone \<Rightarrow> timestamp \<Rightarrow> int \<Rightarrow> timestamp option" where
  "setDate_plus z t n = TimeClip (UTC z (LocalTime z t + n * day_ms))"

record user =
  u_id :: int
  u_isAdmin :: "bool option"

record premiumTier =
  pt_id :: int
  pt_name :: string
  pt_price :: int
  pt_durationDays :: int
  pt_features :: "string list"

record premiumPayment =
  pp_id :: int
  pp_listingId :: int
  pp_userId :: int
  pp_tierId :: int
  pp_paymentProof :: string
  pp_status :: "string option"
  pp_amount :: int
  pp_createdAt :: "timestamp option"
  pp_expiresAt :: "timestamp option"

record listing =
  l_id :: int
  l_userId :: "int option"
  l_isPremium :: "bool option"
  l_premiumTierId :: "int option"
  l_premiumExpiresAt :: "timestamp option"

record geo =
  country :: "string option"
  city :: "string option"
  region :: "string option"

record listingView =
  lv_id :: int
  lv_listingId :: int
  lv_viewerId :: "int option"
  lv_ipAddress :: string
  lv_userAgent :: "string option"
  lv_geoLocation :: "geo option"
  lv_sessionDuration :: "int option"
  lv_viewStartTime :: "timestamp option"
  lv_viewEndTime :: "timestamp option"
  lv_isReturn :: "bool option"
  lv_createdAt :: "timestamp option"

record message =
  m_id :: int
  m_listingId :: "int option"

text \<open>
  The datastore: every table is the list of its rows. A selection or update by \<open>id\<close>
  addresses the rows of that primary key, of which a table of the datastore has at most
  one. The two counters are the identity sequences of the tables the handlers insert
  into (\<open>generatedAlwaysAsIdentity\<close>).
\<close>

record db =
  premiumTiers :: "premiumTier list"
  premiumPayments :: "premiumPayment list"
  listings :: "listing list"
  listingViews :: "listingView list"
  messages :: "message list"
  premiumPayments_seq :: int
  listingViews_seq :: int

text \<open>
  A handler answers with \<open>res.json(body)\<close> (HTTP 200) or with
  \<open>res.status(code).json({message})\<close>.
\<close>

datatype 'a response = Json 'a | Status nat string

section \<open>Datastore primitives\<close>

text \<open>\<open>db.update(t).set(f).where(c)\<close>: every row satisfying \<open>c\<close> is rewritten.\<close>

definition update_where :: "('r \<Rightarrow> bool) \<Rightarrow> ('r \<Rightarrow> 'r) \<Rightarrow> 'r list \<Rightarrow> 'r list" where
  "update_where c f rows = map (\<lambda>r. if c r then f r else r) rows"

text \<open>
  The cast \<open>::integer\<close> of PostgreSQL applied to the quotient \<open>a / b\<close> of a
  \<open>numeric\<close> value (\<open>0 < b\<close>): the nearest integer, a tie going away from zero.
  (A \<open>double precision\<close> value is cast to the nearest integer as well, a tie going to
  the even one; nothing below depends on how a tie is broken.)
\<close>

definition pg_int_cast :: "int \<Rightarrow> int \<Rightarrow> int" where
  "pg_int_cast a b =
     (if 0 \<le> a then (2 * a + b) div (2 * b) else - ((2 * (- a) + b) div (2 * b)))"

text \<open>A comparison with a \<open>NULL\<close> timestamp is not true.\<close>

definition after :: "timestamp option \<Rightarrow> timestamp \<Rightarrow> bool" where
  "after c t = (case c of None \<Rightarrow> False | Some x \<Rightarrow> t < x)"

definition before :: "timestamp option \<Rightarrow> timestamp \<Rightarrow> bool" where
  "before c t = (case c of None \<Rightarrow> False | Some x \<Rightarrow> x < t)"

section \<open>Premium payments (routes.ts)\<close>

subsection \<open>POST /api/premium-payments\<close>

text \<open>
  \<open>file\<close> is the public URL that \<open>uploadFile\<close> returns for the uploaded proof, or
  \<open>None\<close> when the request carries no file; \<open>listingId\<close> and \<open>tierId\<close> are the results
  of \<open>parseInt\<close>, \<open>None\<close> standing for \<open>NaN\<close>. Reading \<open>[0].price\<close> of an empty tier
  selection throws, and so does the insertion of a row whose \<open>listing_id\<close> references
  no listing (after the identity value has been drawn); both end in the handler's
  \<open>catch\<close>.
\<close>

definition submit ::
  "timestamp \<Rightarrow> user option \<Rightarrow> string option \<Rightarrow> int option \<Rightarrow> int option \<Rightarrow> db
     \<Rightarrow> premiumPayment response \<times> db" where
  "submit now reqUser file listingId tierId d =
     (case reqUser of
        None \<Rightarrow> (Status 401 ''Unauthorized'', d)
      | Some usr \<Rightarrow>
          (case file of
             None \<Rightarrow> (Status 400 ''Payment proof is required'', d)
           | Some publicUrl \<Rightarrow>
               (case tierId of
                  None \<Rightarrow> (Status 500 ''Failed to submit payment proof'', d)
                | Some tid \<Rightarrow>
                    (case filter (\<lambda>t. pt_id t = tid) (premiumTiers d) of
                       [] \<Rightarrow> (Status 500 ''Failed to submit payment proof'', d)
                     | tier # _ \<Rightarrow>
                         (case listingId of
                            None \<Rightarrow> (Status 500 ''Failed to submit payment proof'', d)
                          | Some lid \<Rightarrow>
                              if \<not> (\<exists>l \<in> set (listings d). l_id l = lid)
                              then (Status 500 ''Failed to submit payment proof'',
                                    d\<lparr>premiumPayments_seq := premiumPayments_seq d + 1\<rparr>)
                              else
                                let payment =
                                  \<lparr>pp_id = premiumPayments_seq d,
                                   pp_listingId = lid,
                                   pp_userId = u_id usr,
                                   pp_tierId = tid,
                                   pp_paymentProof = publicUrl,
                                   pp_status = Some ''pending'',
                                   pp_amount = pt_price tier,
                                   pp_createdAt = Some now,
                                   pp_expiresAt = None\<rparr>
                                in (Json payment,
                                    d\<lparr>premiumPayments := premiumPayments d @ [payment],
                                      premiumPayments_seq := premiumPayments_seq d + 1\<rparr>))))))"

subsection \<open>PUT /api/admin/premium-payments/:id\<close>

text \<open>The three writes of the handler, in the order in which it issues them.\<close>

definition write_status :: "int \<Rightarrow> string \<Rightarrow> db \<Rightarrow> db" where
  "write_status paymentId status d =
     d\<lparr>premiumPayments :=
         update_where (\<lambda>p. pp_id p = paymentId) (\<lambda>p. p\<lparr>pp_status := Some status\<rparr>)
           (premiumPayments d)\<rparr>"

definition write_listing_premium :: "premiumPayment \<Rightarrow> timestamp \<Rightarrow> db \<Rightarrow> db" where
  "write_listing_premium payment expiresAt d =
     d\<lparr>listings :=
         update_where (\<lambda>l. l_id l = pp_listingId payment)
           (\<lambda>l. l\<lparr>l_isPremium := Some True,
                  l_premiumTierId := Some (pp_tierId payment),
                  l_premiumExpiresAt := Some expiresAt\<rparr>)
           (listings d)\<rparr>"

definition write_expiresAt :: "premiumPayment \<Rightarrow> timestamp \<Rightarrow> db \<Rightarrow> db" where
  "write_expiresAt payment expiresAt d =
     d\<lparr>premiumPayments :=
         update_where (\<lambda>p. pp_id p = pp_id payment) (\<lambda>p. p\<lparr>pp_expiresAt := Some expiresAt\<rparr>)
           (premiumPayments d)\<rparr>"

text \<open>
  \<open>fault\<close> is the datastore call of the request that throws, if any, be it that the
  datastore cannot be reached or that it rejects the statement: call 0 is the
  update of the status, call 1 the selection of the tier, call 2 the update of the
  listing, call 3 the update of \<open>expiresAt\<close>. A throwing call writes nothing and ends
  the request in the \<open>catch\<close> block (HTTP 500); what earlier calls wrote stays, since
  the handler opens no transaction. \<open>payment\<close> is the first row that the first update
  returns; reading \<open>payment.tierId\<close> when there is none, or \<open>tier.durationDays\<close> when
  the tier is missing, throws as well. The expiry is the \<open>Date\<close> of the request moved
  by \<open>durationDays\<close> calendar days in the zone \<open>z\<close> of the server; when that \<open>Date\<close> is
  invalid, the update of the listing throws while its parameters are built
  (\<open>toISOString\<close>), and nothing of it is sent.
\<close>

definition setStatus ::
  "nat option \<Rightarrow> zone \<Rightarrow> timestamp \<Rightarrow> user option \<Rightarrow> int \<Rightarrow> string \<Rightarrow> db
     \<Rightarrow> premiumPayment option response \<times> db" where
  "setStatus fault z now reqUser paymentId status d =
     (case reqUser of
        None \<Rightarrow> (Status 401 ''Unauthorized'', d)
      | Some usr \<Rightarrow>
          if u_isAdmin usr \<noteq> Some True then (Status 403 ''Unauthorized'', d)
          else if fault = Some 0 then (Status 500 ''Failed to update payment status'', d)
          else
            let d1 = write_status paymentId status d;
                returned = filter (\<lambda>p. pp_id p = paymentId) (premiumPayments d1)
            in
              if status = ''approved'' then
                (case returned of
                   [] \<Rightarrow> (Status 500 ''Failed to update payment status'', d1)
                 | payment # _ \<Rightarrow>
                     if fault = Some 1
                     then (Status 500 ''Failed to update payment status'', d1)
                     else
                       (case filter (\<lambda>t. pt_id t = pp_tierId payment) (premiumTiers d1) of
                          [] \<Rightarrow> (Status 500 ''Failed to update payment status'', d1)
                        | tier # _ \<Rightarrow>
                            (case setDate_plus z now (pt_durationDays tier) of
                               None \<Rightarrow> (Status 500 ''Failed to update payment status'', d1)
                             | Some expiresAt \<Rightarrow>
                                 if fault = Some 2
                                 then (Status 500 ''Failed to update payment status'', d1)
                                 else
                                   let d2 = write_listing_premium payment expiresAt d1 in
                                     if fault = Some 3
                                     then (Status 500 ''Failed to update payment status'', d2)
                                     else (Json (Some payment),
                                           write_expiresAt payment expiresAt d2))))
              else
                (Json (case returned of [] \<Rightarrow> None | payment # _ \<Rightarrow> Some payment), d1))"

text \<open>A run of requests against the payment endpoints, none of them hit by a fault.\<close>

datatype op =
    Submit "user option" "string option" "int option" "int option"
  | SetStatus "user option" int string

fun run :: "zone \<Rightarrow> (timestamp \<times> op) list \<Rightarrow> db \<Rightarrow> db" where
  "run z [] d = d"
| "run z ((now, Submit reqUser file listingId tierId) # ops) d =
     run z ops (snd (submit now reqUser file listingId tierId d))"
| "run z ((now, SetStatus reqUser paymentId status) # ops) d =
     run z ops (snd (setStatus None z now reqUser paymentId status d))"

text \<open>
  The state of the payments that the runs maintain: an approved payment has an expiry,
  and the tier of every payment is in the tier table (the foreign key of \<open>tier_id\<close>).
\<close>

definition approved_has_expiry :: "premiumPayment \<Rightarrow> bool" where
  "approved_has_expiry p = (pp_status p = Some ''approved'' \<longrightarrow> pp_expiresAt p \<noteq> None)"

definition tier_present :: "db \<Rightarrow> premiumPayment \<Rightarrow> bool" where
  "tier_present d p = (\<exists>t \<in> set (premiumTiers d). pt_id t = pp_tierId p)"

definition payments_inv :: "db \<Rightarrow> bool" where
  "payments_inv d = (\<forall>p \<in> set (premiumPayments d). approved_has_expiry p \<and> tier_present d p)"

text \<open>
  Every expiry that a request of the run can compute, from its time and a tier of the
  table, is a valid \<open>Date\<close>.
\<close>

definition expiries_valid :: "zone \<Rightarrow> (timestamp \<times> op) list \<Rightarrow> db \<Rightarrow> bool" where
  "expiries_valid z ops d =
     (\<forall>(now, op) \<in> set ops. \<forall>t \<in> set (premiumTiers d).
        setDate_plus z now (pt_durationDays t) \<noteq> None)"

section \<open>Listing views (routes.ts)\<close>

subsection \<open>POST /api/listings/:id/view\<close>

datatype view_body = Message string | View listingView

text \<open>
  \<open>geoip\<close> is what the name \<open>geoip\<close> is bound to where the handler runs: routes.ts
  neither imports nor defines it, so in the repository as it is the binding is \<open>None\<close>
  (\<open>geoip_of_routes\<close>), the first statement of the handler that mentions it throws a
  \<open>ReferenceError\<close>, and the request ends in the \<open>catch\<close> block before any query. With a geolocation database
  bound to the name, \<open>lookup\<close> yields country, city and region of an address, or nothing.

  \<open>previous_view\<close> and \<open>recent_view\<close> are the conditions of the two selections, made in
  this order, and \<open>update_duration\<close> is the assignment of the update. A selection with
  \<open>LIMIT 1\<close> and no \<open>ORDER BY\<close> returns whichever matching row the datastore finds
  first: \<open>pick\<close> is that choice. The session duration is
  \<open>EXTRACT(EPOCH FROM (NOW() - view_start_time))::integer\<close>, the elapsed seconds cast to
  an integer by the datastore; the cast of a number outside the 32-bit integers is an
  error, which fails the update. The insertion of a view whose \<open>listing_id\<close> references
  no listing throws after the identity value has been drawn.
\<close>

definition geoip_of_routes :: "(string \<Rightarrow> (string \<times> string \<times> string) option) option" where
  "geoip_of_routes = None"

definition limit1 :: "nat \<Rightarrow> 'r list \<Rightarrow> 'r option" where
  "limit1 pick rows = (if rows = [] then None else Some (rows ! (pick mod length rows)))"

definition previous_view :: "timestamp \<Rightarrow> int \<Rightarrow> string \<Rightarrow> listingView \<Rightarrow> bool" where
  "previous_view now listingId ipAddress v =
     (lv_listingId v = listingId \<and> lv_ipAddress v = ipAddress \<and>
      after (lv_createdAt v) (now - 7 * day_ms) \<and>
      before (lv_createdAt v) (now - 24 * hour_ms))"

definition recent_view :: "timestamp \<Rightarrow> int \<Rightarrow> string \<Rightarrow> listingView \<Rightarrow> bool" where
  "recent_view now listingId ipAddress v =
     (lv_listingId v = listingId \<and> lv_ipAddress v = ipAddress \<and>
      after (lv_createdAt v) (now - hour_ms))"

definition int4 :: "int \<Rightarrow> bool" where
  "int4 n = (- 2147483648 \<le> n \<and> n \<le> 2147483647)"

definition elapsed_seconds :: "timestamp \<Rightarrow> listingView \<Rightarrow> int option" where
  "elapsed_seconds now v = map_option (\<lambda>s. pg_int_cast (now - s) 1000) (lv_viewStartTime v)"

definition duration_fits :: "timestamp \<Rightarrow> listingView \<Rightarrow> bool" where
  "duration_fits now v = (case elapsed_seconds now v of None \<Rightarrow> True | Some n \<Rightarrow> int4 n)"

definition update_duration :: "timestamp \<Rightarrow> listingView \<Rightarrow> listingView" where
  "update_duration now v =
     v\<lparr>lv_viewEndTime := Some now, lv_sessionDuration := elapsed_seconds now v\<rparr>"

definition geoLocation_of ::
  "(string \<Rightarrow> (string \<times> string \<times> string) option) \<Rightarrow> string \<Rightarrow> geo" where
  "geoLocation_of geoip_lookup ipAddress =
     (case geoip_lookup ipAddress of
        Some (c, ci, r) \<Rightarrow> \<lparr>country = Some c, city = Some ci, region = Some r\<rparr>
      | None \<Rightarrow> \<lparr>country = None, city = None, region = None\<rparr>)"

definition recordView ::
  "(string \<Rightarrow> (string \<times> string \<times> string) option) option \<Rightarrow> nat \<Rightarrow> timestamp
     \<Rightarrow> user option \<Rightarrow> int \<Rightarrow> string \<Rightarrow> string option \<Rightarrow> db \<Rightarrow> view_body response \<times> db" where
  "recordView geoip pick now reqUser listingId ipAddress userAgent d =
     (case geoip of
        None \<Rightarrow> (Status 500 ''Failed to track view'', d)
      | Some lookup \<Rightarrow>
         (let viewerId = map_option u_id reqUser;
              geoLocation = geoLocation_of lookup ipAddress;
              previousView =
                limit1 pick (filter (previous_view now listingId ipAddress) (listingViews d));
              recentView =
                limit1 pick (filter (recent_view now listingId ipAddress) (listingViews d))
          in (case recentView of
               Some recent \<Rightarrow>
                 if \<not> list_all (duration_fits now)
                          (filter (\<lambda>v. lv_id v = lv_id recent) (listingViews d))
                 then (Status 500 ''Failed to track view'', d)
                 else
                   (Json (Message ''View duration updated''),
                    d\<lparr>listingViews :=
                        update_where (\<lambda>v. lv_id v = lv_id recent) (update_duration now)
                          (listingViews d)\<rparr>)
             | None \<Rightarrow>
                 if \<not> (\<exists>l \<in> set (listings d). l_id l = listingId)
                 then (Status 500 ''Failed to track view'',
                       d\<lparr>listingViews_seq := listingViews_seq d + 1\<rparr>)
                 else
                   let view =
                     \<lparr>lv_id = listingViews_seq d,
                      lv_listingId = listingId,
                      lv_viewerId = viewerId,
                      lv_ipAddress = ipAddress,
                      lv_userAgent = userAgent,
                      lv_geoLocation = Some geoLocation,
                      lv_sessionDuration = None,
                      lv_viewStartTime = Some now,
                      lv_viewEndTime = None,
                      lv_isReturn = Some (previousView \<noteq> None),
                      lv_createdAt = Some now\<rparr>
                   in (Json (View view),
                       d\<lparr>listingViews := listingViews d @ [view],
                         listingViews_seq := listingViews_seq d + 1\<rparr>))))"


subsection \<open>GET /api/listings/:id/analytics\<close>

record viewsResult =
  v_total :: nat
  v_unique :: nat
  v_returningVisitors :: nat
  v_avgDuration :: "int option"

record analyticsReport =
  r_views :: viewsResult
  r_hourlyViews :: "(string \<times> nat) list"
  r_dailyViews :: "(int \<times> nat) list"
  r_geoDistribution :: "(string \<times> nat) list"
  r_messageCount :: nat

text \<open>
  \<open>avg(session_duration)::int\<close>: the aggregate skips \<open>NULL\<close>, is \<open>NULL\<close> when nothing is
  left, and its \<open>numeric\<close> result is cast to an integer by the datastore.
\<close>

definition avg_int :: "int option list \<Rightarrow> int option" where
  "avg_int xs =
     (let ds = map the (filter (\<lambda>x. x \<noteq> None) xs)
      in if ds = [] then None else Some (pg_int_cast (sum_list ds) (int (length ds))))"

definition views_of :: "int \<Rightarrow> db \<Rightarrow> listingView list" where
  "views_of listingId d = filter (\<lambda>v. lv_listingId v = listingId) (listingViews d)"

definition viewsResult_of :: "listingView list \<Rightarrow> viewsResult" where
  "viewsResult_of rows =
     \<lparr>v_total = length rows,
      v_unique = length (remdups (map lv_ipAddress rows)),
      v_returningVisitors =
        length (remdups (map lv_ipAddress (filter (\<lambda>v. lv_isReturn v = Some True) rows))),
      v_avgDuration = avg_int (map lv_sessionDuration rows)\<rparr>"

text \<open>
  \<open>to_char(created_at, 'HH24:00')\<close> and \<open>date_trunc('day', created_at)::date\<close>. The
  labels of the hours are two digits followed by \<open>:00\<close>, so they are ordered as the
  hours are.
\<close>

definition hour_of :: "timestamp \<Rightarrow> nat" where
  "hour_of t = nat ((t div hour_ms) mod 24)"

definition hour_label :: "nat \<Rightarrow> string" where
  "hour_label h = [char_of (48 + h div 10), char_of (48 + h mod 10)] @ '':00''"

definition day_of :: "timestamp \<Rightarrow> int" where
  "day_of t = t div day_ms"

text \<open>\<open>GROUP BY key\<close> with \<open>count(*)\<close>: one pair for every key that occurs.\<close>

definition group_count :: "'k list \<Rightarrow> 'k list \<Rightarrow> ('k \<times> nat) list" where
  "group_count keys xs = map (\<lambda>k. (k, length (filter (\<lambda>x. x = k) xs))) keys"

definition created_after :: "timestamp \<Rightarrow> listingView list \<Rightarrow> timestamp list" where
  "created_after t rows =
     map (\<lambda>v. the (lv_createdAt v)) (filter (\<lambda>v. after (lv_createdAt v) t) rows)"

definition countries_of :: "listingView list \<Rightarrow> string list" where
  "countries_of rows =
     map the (filter (\<lambda>c. c \<noteq> None)
       (map (\<lambda>v. case lv_geoLocation v of None \<Rightarrow> None | Some g \<Rightarrow> country g) rows))"

definition getAnalytics ::
  "timestamp \<Rightarrow> user option \<Rightarrow> int \<Rightarrow> db \<Rightarrow> analyticsReport response" where
  "getAnalytics now reqUser listingId d =
     (case reqUser of
        None \<Rightarrow> Status 401 ''Unauthorized''
      | Some usr \<Rightarrow>
          (case filter (\<lambda>l. l_id l = listingId) (listings d) of
             [] \<Rightarrow> Status 403 ''Unauthorized''
           | listing # _ \<Rightarrow>
               if l_userId listing \<noteq> Some (u_id usr) then Status 403 ''Unauthorized''
               else
                 let rows = views_of listingId d;
                     hours = map hour_of (created_after (now - 24 * hour_ms) rows);
                     days = map day_of (created_after (now - 7 * day_ms) rows);
                     countries = countries_of rows
                 in Json
                      \<lparr>r_views = viewsResult_of rows,
                       r_hourlyViews =
                         map (\<lambda>(h, n). (hour_label h, n)) (group_count (sort (remdups hours)) hours),
                       r_dailyViews = group_count (sort (remdups days)) days,
                       r_geoDistribution = group_count (remdups countries) countries,
                       r_messageCount =
                         length (filter (\<lambda>m. m_listingId m = Some listingId) (messages d))\<rparr>))"

text \<open>The requester owns the listing that the selection by id returns first.\<close>

definition owns :: "user \<Rightarrow> int \<Rightarrow> db \<Rightarrow> bool" where
  "owns usr listingId d =
     (case filter (\<lambda>l. l_id l = listingId) (listings d) of
        [] \<Rightarrow> False
      | listing # _ \<Rightarrow> l_userId listing = Some (u_id usr))"

text \<open>
  The average as the specification words it: the mean of the recorded durations,
  truncated to an integer.
\<close>

definition truncated_mean :: "int list \<Rightarrow> int" where
  "truncated_mean ds = sgn (sum_list ds) * (\<bar>sum_list ds\<bar> div int (length ds))"

section \<open>Example data\<close>

definition ex_admin :: user where
  "ex_admin = \<lparr>u_id = 1, u_isAdmin = Some True\<rparr>"

definition ex_tier :: premiumTier where
  "ex_tier = \<lparr>pt_id = 1, pt_name = ''Gold'', pt_price = 500, pt_durationDays = 30, pt_features = []\<rparr>"

definition ex_listing :: listing where
  "ex_listing = \<lparr>l_id = 7, l_userId = Some 2, l_isPremium = Some False,
     l_premiumTierId = None, l_premiumExpiresAt = None\<rparr>"

definition ex_payment :: premiumPayment where
  "ex_payment = \<lparr>pp_id = 1, pp_listingId = 7, pp_userId = 2, pp_tierId = 1,
     pp_paymentProof = ''proof.png'', pp_status = Some ''pending'', pp_amount = 500,
     pp_createdAt = Some 0, pp_expiresAt = None\<rparr>"

definition ex_db :: db where
  "ex_db = \<lparr>premiumTiers = [ex_tier], premiumPayments = [ex_payment], listings = [ex_listing],
     listingViews = [], messages = [], premiumPayments_seq = 2, listingViews_seq = 1\<rparr>"


text \<open>A server in UTC, and a tier whose duration takes an expiry computed in this
  century out of the range of a \<open>Date\<close>.\<close>

definition utc_zone :: zone where
  "utc_zone = \<lparr>LocalTime = (\<lambda>t. t), UTC = (\<lambda>t. t)\<rparr>"

text \<open>A zone that moves its clocks forward by one hour ten days after the epoch.\<close>

definition dst_zone :: zone where
  "dst_zone =
     \<lparr>LocalTime = (\<lambda>t. if t < 864000000 then t else t + 3600000),
      UTC = (\<lambda>t. if t < 867600000 then t else t - 3600000)\<rparr>"

definition ex_tier_long :: premiumTier where
  "ex_tier_long = \<lparr>pt_id = 1, pt_name = ''Gold'', pt_price = 500,
     pt_durationDays = 100000001, pt_features = []\<rparr>"

definition ex_db_long :: db where
  "ex_db_long = \<lparr>premiumTiers = [ex_tier_long], premiumPayments = [ex_payment],
     listings = [ex_listing], listingViews = [], messages = [],
     premiumPayments_seq = 2, listingViews_seq = 1\<rparr>"

definition ex_buyer :: user where
  "ex_buyer = \<lparr>u_id = 2, u_isAdmin = Some False\<rparr>"

text \<open>The example datastore before any payment, and a run on it: a submission, its
  approval, and a later rejection of the same payment.\<close>

definition ex_db0 :: db where
  "ex_db0 = \<lparr>premiumTiers = [ex_tier], premiumPayments = [], listings = [ex_listing],
     listingViews = [], messages = [], premiumPayments_seq = 1, listingViews_seq = 1\<rparr>"

definition ex_db0_long :: db where
  "ex_db0_long = \<lparr>premiumTiers = [ex_tier_long], premiumPayments = [], listings = [ex_listing],
     listingViews = [], messages = [], premiumPayments_seq = 1, listingViews_seq = 1\<rparr>"

definition ex_ops :: "(timestamp \<times> op) list" where
  "ex_ops =
     [(0, Submit (Some ex_buyer) (Some ''proof.png'') (Some 7) (Some 1)),
      (1000, SetStatus (Some ex_admin) 1 ''approved''),
      (2000, SetStatus (Some ex_admin) 1 ''rejected'')]"

text \<open>A datastore with one view of listing 7, recorded at time 0 from one address, and a
  geolocation database that knows no address.\<close>

definition ex_geoip :: "string \<Rightarrow> (string \<times> string \<times> string) option" where
  "ex_geoip ip = None"

definition ex_view :: listingView where
  "ex_view = \<lparr>lv_id = 1, lv_listingId = 7, lv_viewerId = None, lv_ipAddress = ''10.0.0.1'',
     lv_userAgent = None,
     lv_geoLocation = Some \<lparr>country = None, city = None, region = None\<rparr>,
     lv_sessionDuration = None, lv_viewStartTime = Some 0, lv_viewEndTime = None,
     lv_isReturn = Some False, lv_createdAt = Some 0\<rparr>"

definition ex_view_db :: db where
  "ex_view_db = \<lparr>premiumTiers = [ex_tier], premiumPayments = [], listings = [ex_listing],
     listingViews = [ex_view], messages = [], premiumPayments_seq = 1, listingViews_seq = 2\<rparr>"

text \<open>Listing 7, owned by the buyer, with two views: one of 10 seconds and one without a
  duration; and the same with durations of 1 and 2 seconds.\<close>

definition ex_analytics_db :: db where
  "ex_analytics_db = \<lparr>premiumTiers = [ex_tier], premiumPayments = [], listings = [ex_listing],
     listingViews =
       [ex_view\<lparr>lv_sessionDuration := Some 10\<rparr>,
        ex_view\<lparr>lv_id := 2, lv_ipAddress := ''10.0.0.2''\<rparr>],
     messages = [], premiumPayments_seq = 1, listingViews_seq = 3\<rparr>"

definition ex_analytics_db2 :: db where
  "ex_analytics_db2 = \<lparr>premiumTiers = [ex_tier], premiumPayments = [], listings = [ex_listing],
     listingViews =
       [ex_view\<lparr>lv_sessionDuration := Some 1\<rparr>,
        ex_view\<lparr>lv_id := 2, lv_ipAddress := ''10.0.0.2'', lv_sessionDuration := Some 2\<rparr>],
     messages = [], premiumPayments_seq = 1, listingViews_seq = 3\<rparr>"


section \<open>Properties\<close>

lemmas ex_defs = ex_admin_def ex_tier_def ex_listing_def ex_payment_def ex_db_def

lemmas write_defs = write_status_def write_listing_premium_def write_expiresAt_def
  update_where_def

lemmas date_defs = setDate_plus_def TimeClip_def utc_zone_def day_ms_def

lemma filter_Cons_mem: "filter P xs = y # ys \<Longrightarrow> y \<in> set xs \<and> P y"
proof -
  assume "filter P xs = y # ys"
  then have "y \<in> set (filter P xs)" by simp
  then show ?thesis by simp
qed

lemma filter_update_where:
  assumes "\<And>r. c (f r) = c r"
  shows "filter c (update_where c f rows) = map f (filter c rows)"
  using assms by (induction rows) (auto simp: update_where_def)

lemma returned_write_status:
  "filter (\<lambda>p. pp_id p = paymentId) (premiumPayments (write_status paymentId status d)) =
     map (\<lambda>p. p\<lparr>pp_status := Some status\<rparr>) (filter (\<lambda>p. pp_id p = paymentId) (premiumPayments d))"
  by (simp add: write_status_def filter_update_where)

lemma premiumTiers_write_status [simp]:
  "premiumTiers (write_status paymentId status d) = premiumTiers d"
  by (simp add: write_status_def)

text \<open>An approval of an existing payment with an existing tier, step by step.\<close>

lemma setStatus_approved_steps:
  assumes admin: "u_isAdmin usr = Some True"
    and pay: "filter (\<lambda>q. pp_id q = paymentId) (premiumPayments d) = p # ps"
    and tier: "filter (\<lambda>t. pt_id t = pp_tierId p) (premiumTiers d) = tier # ts"
  shows "setStatus fault z now (Some usr) paymentId ''approved'' d =
     (let payment = p\<lparr>pp_status := Some ''approved''\<rparr>;
          d1 = write_status paymentId ''approved'' d
      in if fault = Some 0 then (Status 500 ''Failed to update payment status'', d)
         else if fault = Some 1 then (Status 500 ''Failed to update payment status'', d1)
         else
           (case setDate_plus z now (pt_durationDays tier) of
              None \<Rightarrow> (Status 500 ''Failed to update payment status'', d1)
            | Some expiresAt \<Rightarrow>
                if fault = Some 2 then (Status 500 ''Failed to update payment status'', d1)
                else if fault = Some 3
                  then (Status 500 ''Failed to update payment status'',
                        write_listing_premium payment expiresAt d1)
                else (Json (Some payment),
                      write_expiresAt payment expiresAt
                        (write_listing_premium payment expiresAt d1))))"
  using admin tier
  by (simp add: setStatus_def returned_write_status pay Let_def split: option.splits)

lemma setStatus_approved_ok:
  assumes admin: "u_isAdmin usr = Some True"
    and pay: "filter (\<lambda>q. pp_id q = paymentId) (premiumPayments d) = p # ps"
    and tier: "filter (\<lambda>t. pt_id t = pp_tierId p) (premiumTiers d) = tier # ts"
    and date: "setDate_plus z now (pt_durationDays tier) = Some expiresAt"
  shows "setStatus None z now (Some usr) paymentId ''approved'' d =
     (Json (Some (p\<lparr>pp_status := Some ''approved''\<rparr>)),
      write_expiresAt (p\<lparr>pp_status := Some ''approved''\<rparr>) expiresAt
        (write_listing_premium (p\<lparr>pp_status := Some ''approved''\<rparr>) expiresAt
          (write_status (pp_id p) ''approved'' d)))"
proof -
  have "pp_id p = paymentId" using filter_Cons_mem [OF pay] by simp
  then show ?thesis
    using setStatus_approved_steps [OF admin pay tier, of None z now]
    by (simp add: Let_def date)
qed

lemma payments_after_approval:
  "premiumPayments (write_expiresAt (p\<lparr>pp_status := Some s\<rparr>) e
      (write_listing_premium p' e' (write_status (pp_id p) s d))) =
   map (\<lambda>q. if pp_id q = pp_id p then q\<lparr>pp_status := Some s, pp_expiresAt := Some e\<rparr> else q)
     (premiumPayments d)"
  by (simp add: write_defs)

lemma listings_after_approval:
  "listings (write_expiresAt p'' e''
      (write_listing_premium (p\<lparr>pp_status := Some s\<rparr>) e (write_status i s d))) =
   map (\<lambda>l. if l_id l = pp_listingId p
             then l\<lparr>l_isPremium := Some True, l_premiumTierId := Some (pp_tierId p),
                    l_premiumExpiresAt := Some e\<rparr>
             else l)
     (listings d)"
  by (simp add: write_defs)

text \<open>
  Claim C1, as amended. When an admin sets the status of an existing payment to approved,
  no datastore call fails, and the approval time moved by the tier's \<open>durationDays\<close>
  calendar days in the server's time zone is a valid \<open>Date\<close>, every listing row the
  payment references has \<open>isPremium\<close> true, \<open>premiumTierId\<close> the payment's tier and
  \<open>premiumExpiresAt\<close> that timestamp, and every payment row of that id has status
  approved and the same timestamp as \<open>expiresAt\<close>.
\<close>

theorem approve_sets_listing_and_payment:
  assumes admin: "u_isAdmin usr = Some True"
    and pay: "filter (\<lambda>q. pp_id q = paymentId) (premiumPayments d) = p # ps"
    and tier: "filter (\<lambda>t. pt_id t = pp_tierId p) (premiumTiers d) = tier # ts"
    and lst: "l0 \<in> set (listings d)" "l_id l0 = pp_listingId p"
    and date: "setDate_plus z now (pt_durationDays tier) = Some expiresAt"
    and run: "setStatus None z now (Some usr) paymentId ''approved'' d = (res, d')"
  shows "(\<exists>l \<in> set (listings d'). l_id l = pp_listingId p) \<and>
         (\<forall>l \<in> set (listings d'). l_id l = pp_listingId p \<longrightarrow>
            l_isPremium l = Some True \<and> l_premiumTierId l = Some (pp_tierId p) \<and>
            l_premiumExpiresAt l = Some expiresAt) \<and>
         (\<exists>q \<in> set (premiumPayments d'). pp_id q = paymentId) \<and>
         (\<forall>q \<in> set (premiumPayments d'). pp_id q = paymentId \<longrightarrow>
            pp_status q = Some ''approved'' \<and> pp_expiresAt q = Some expiresAt)"
proof -
  have id: "pp_id p = paymentId" and mem: "p \<in> set (premiumPayments d)"
    using filter_Cons_mem [OF pay] by simp_all
  have d': "d' = write_expiresAt (p\<lparr>pp_status := Some ''approved''\<rparr>) expiresAt
      (write_listing_premium (p\<lparr>pp_status := Some ''approved''\<rparr>) expiresAt
        (write_status (pp_id p) ''approved'' d))"
    using run setStatus_approved_ok [OF admin pay tier date] by simp
  have P: "premiumPayments d' =
      map (\<lambda>q. if pp_id q = pp_id p
                then q\<lparr>pp_status := Some ''approved'', pp_expiresAt := Some expiresAt\<rparr> else q)
        (premiumPayments d)"
    unfolding d' by (rule payments_after_approval)
  have L: "listings d' =
      map (\<lambda>l. if l_id l = pp_listingId p
                then l\<lparr>l_isPremium := Some True, l_premiumTierId := Some (pp_tierId p),
                       l_premiumExpiresAt := Some expiresAt\<rparr>
                else l)
        (listings d)"
    unfolding d' by (rule listings_after_approval)
  have 1: "\<exists>l \<in> set (listings d'). l_id l = pp_listingId p"
  proof -
    let ?g = "\<lambda>l. if l_id l = pp_listingId p
                then l\<lparr>l_isPremium := Some True, l_premiumTierId := Some (pp_tierId p),
                       l_premiumExpiresAt := Some expiresAt\<rparr>
                else l"
    have "?g l0 \<in> set (listings d')" unfolding L set_map using lst(1) by (rule imageI)
    moreover have "l_id (?g l0) = pp_listingId p" using lst(2) by simp
    ultimately show ?thesis by blast
  qed
  have 2: "\<forall>l \<in> set (listings d'). l_id l = pp_listingId p \<longrightarrow>
            l_isPremium l = Some True \<and> l_premiumTierId l = Some (pp_tierId p) \<and>
            l_premiumExpiresAt l = Some expiresAt"
    unfolding L by auto
  have 3: "\<exists>q \<in> set (premiumPayments d'). pp_id q = paymentId"
  proof -
    let ?g = "\<lambda>q. if pp_id q = pp_id p
                then q\<lparr>pp_status := Some ''approved'', pp_expiresAt := Some expiresAt\<rparr> else q"
    have "?g p \<in> set (premiumPayments d')" unfolding P set_map using mem by (rule imageI)
    moreover have "pp_id (?g p) = paymentId" using id by simp
    ultimately show ?thesis by blast
  qed
  have 4: "\<forall>q \<in> set (premiumPayments d'). pp_id q = paymentId \<longrightarrow>
            pp_status q = Some ''approved'' \<and> pp_expiresAt q = Some expiresAt"
    unfolding P using id by auto
  from 1 2 3 4 show ?thesis by blast
qed

lemma ex_date: "setDate_plus utc_zone 1000 (pt_durationDays ex_tier) = Some 2592001000"
  by (simp add: date_defs ex_tier_def)

text \<open>Across the change of the clocks, thirty calendar days are one hour short of
  thirty times twenty-four hours.\<close>

lemma ex_date_dst: "setDate_plus dst_zone 1000 (pt_durationDays ex_tier) = Some 2588401000"
  by (simp add: setDate_plus_def TimeClip_def dst_zone_def day_ms_def ex_tier_def)

lemma ex_approve:
  "setStatus None utc_zone 1000 (Some ex_admin) 1 ''approved'' ex_db =
     (Json (Some (ex_payment\<lparr>pp_status := Some ''approved''\<rparr>)),
      ex_db\<lparr>premiumPayments := [ex_payment\<lparr>pp_status := Some ''approved'', pp_expiresAt := Some 2592001000\<rparr>],
            listings := [ex_listing\<lparr>l_isPremium := Some True, l_premiumTierId := Some 1,
                                   l_premiumExpiresAt := Some 2592001000\<rparr>]\<rparr>)"
  by (simp add: ex_defs setStatus_def write_defs date_defs Let_def)

theorem approve_sets_listing_and_payment_witness:
  "u_isAdmin ex_admin = Some True \<and>
   filter (\<lambda>q. pp_id q = 1) (premiumPayments ex_db) = [ex_payment] \<and>
   filter (\<lambda>t. pt_id t = pp_tierId ex_payment) (premiumTiers ex_db) = [ex_tier] \<and>
   ex_listing \<in> set (listings ex_db) \<and> l_id ex_listing = pp_listingId ex_payment \<and>
   setDate_plus utc_zone 1000 (pt_durationDays ex_tier) = Some (1000 + 30 * day_ms) \<and>
   (\<exists>l \<in> set (listings (snd (setStatus None utc_zone 1000 (Some ex_admin) 1 ''approved'' ex_db))).
      l_id l = 7) \<and>
   map l_isPremium
     (listings (snd (setStatus None utc_zone 1000 (Some ex_admin) 1 ''approved'' ex_db))) =
     [Some True] \<and>
   map l_premiumTierId
     (listings (snd (setStatus None utc_zone 1000 (Some ex_admin) 1 ''approved'' ex_db))) =
     [Some 1] \<and>
   map l_premiumExpiresAt
     (listings (snd (setStatus None utc_zone 1000 (Some ex_admin) 1 ''approved'' ex_db))) =
     [Some (1000 + 30 * day_ms)] \<and>
   map pp_status
     (premiumPayments (snd (setStatus None utc_zone 1000 (Some ex_admin) 1 ''approved'' ex_db))) =
     [Some ''approved''] \<and>
   map pp_expiresAt
     (premiumPayments (snd (setStatus None utc_zone 1000 (Some ex_admin) 1 ''approved'' ex_db))) =
     [Some (1000 + 30 * day_ms)]"
proof -
  have h1: "u_isAdmin ex_admin = Some True" by (simp add: ex_defs)
  have h2: "filter (\<lambda>q. pp_id q = 1) (premiumPayments ex_db) = [ex_payment]"
    by (simp add: ex_defs)
  have h3: "filter (\<lambda>t. pt_id t = pp_tierId ex_payment) (premiumTiers ex_db) = [ex_tier]"
    by (simp add: ex_defs)
  have h4: "ex_listing \<in> set (listings ex_db)" by (simp add: ex_defs)
  have h5: "l_id ex_listing = pp_listingId ex_payment" by (simp add: ex_defs)
  have h6: "setStatus None utc_zone 1000 (Some ex_admin) 1 ''approved'' ex_db =
      (fst (setStatus None utc_zone 1000 (Some ex_admin) 1 ''approved'' ex_db),
       snd (setStatus None utc_zone 1000 (Some ex_admin) 1 ''approved'' ex_db))" by simp
  note T = approve_sets_listing_and_payment [OF h1 h2 h3 h4 h5 ex_date h6]
  have c: "listings (snd (setStatus None utc_zone 1000 (Some ex_admin) 1 ''approved'' ex_db)) =
      [ex_listing\<lparr>l_isPremium := Some True, l_premiumTierId := Some 1,
                  l_premiumExpiresAt := Some 2592001000\<rparr>]"
    "premiumPayments (snd (setStatus None utc_zone 1000 (Some ex_admin) 1 ''approved'' ex_db)) =
      [ex_payment\<lparr>pp_status := Some ''approved'', pp_expiresAt := Some 2592001000\<rparr>]"
    by (simp_all add: ex_approve)
  have e: "(1000::int) + 30 * day_ms = 2592001000" by (simp add: day_ms_def)
  from T h1 h2 h3 h4 h5 ex_date show ?thesis
    unfolding c e by (simp add: ex_listing_def ex_payment_def)
qed

text \<open>
  The claim as stated fails: with a tier of 100000001 days the expiry is no valid \<open>Date\<close>,
  the update of the listing throws, and the request ends with HTTP 500 after the status
  approved has been stored; the listing is not premium and the payment has no expiry.
\<close>

lemma ex_approve_long:
  "setStatus None utc_zone 1000 (Some ex_admin) 1 ''approved'' ex_db_long =
     (Status 500 ''Failed to update payment status'',
      ex_db_long\<lparr>premiumPayments := [ex_payment\<lparr>pp_status := Some ''approved''\<rparr>]\<rparr>)"
  by (simp add: ex_db_long_def ex_tier_long_def ex_admin_def ex_payment_def ex_listing_def
      setStatus_def write_defs date_defs Let_def)

theorem approval_beyond_date_range_fails:
  "map pt_durationDays (premiumTiers ex_db_long) = [100000001] \<and>
   fst (setStatus None utc_zone 1000 (Some ex_admin) 1 ''approved'' ex_db_long) =
     Status 500 ''Failed to update payment status'' \<and>
   map pp_status
     (premiumPayments (snd (setStatus None utc_zone 1000 (Some ex_admin) 1 ''approved'' ex_db_long))) =
     [Some ''approved''] \<and>
   map pp_expiresAt
     (premiumPayments (snd (setStatus None utc_zone 1000 (Some ex_admin) 1 ''approved'' ex_db_long))) =
     [None] \<and>
   map l_isPremium
     (listings (snd (setStatus None utc_zone 1000 (Some ex_admin) 1 ''approved'' ex_db_long))) =
     [Some False] \<and>
   map l_premiumExpiresAt
     (listings (snd (setStatus None utc_zone 1000 (Some ex_admin) 1 ''approved'' ex_db_long))) =
     [None]"
  by (simp add: ex_approve_long)
    (simp add: ex_db_long_def ex_tier_long_def ex_payment_def ex_listing_def)

text \<open>
  Claim C9. When an admin sets the status of a payment to rejected, the datastore changes
  in the status field of the payment rows of that id only: the listings, and every
  payment's \<open>expiresAt\<close>, are as before.
\<close>

theorem reject_changes_only_status:
  assumes admin: "u_isAdmin usr = Some True"
    and run: "setStatus None z now (Some usr) paymentId ''rejected'' d = (res, d')"
  shows "d' = d\<lparr>premiumPayments :=
                  map (\<lambda>q. if pp_id q = paymentId then q\<lparr>pp_status := Some ''rejected''\<rparr> else q)
                    (premiumPayments d)\<rparr> \<and>
         listings d' = listings d \<and>
         map pp_expiresAt (premiumPayments d') = map pp_expiresAt (premiumPayments d)"
proof -
  have d': "d' = write_status paymentId ''rejected'' d"
    using run admin by (simp add: setStatus_def Let_def)
  have "map pp_expiresAt (premiumPayments (write_status paymentId ''rejected'' d)) =
      map pp_expiresAt (premiumPayments d)"
    by (simp add: write_status_def update_where_def comp_def if_distrib [of pp_expiresAt])
  then show ?thesis
    unfolding d' by (simp add: write_status_def update_where_def)
qed

theorem reject_changes_only_status_witness:
  "u_isAdmin ex_admin = Some True \<and>
   snd (setStatus None utc_zone 1000 (Some ex_admin) 1 ''rejected'' ex_db) =
     ex_db\<lparr>premiumPayments := [ex_payment\<lparr>pp_status := Some ''rejected''\<rparr>]\<rparr> \<and>
   listings (snd (setStatus None utc_zone 1000 (Some ex_admin) 1 ''rejected'' ex_db)) =
     [ex_listing] \<and>
   map pp_expiresAt
     (premiumPayments (snd (setStatus None utc_zone 1000 (Some ex_admin) 1 ''rejected'' ex_db)))
     = [None]"
proof -
  have h1: "u_isAdmin ex_admin = Some True" by (simp add: ex_defs)
  have h2: "setStatus None utc_zone 1000 (Some ex_admin) 1 ''rejected'' ex_db =
      (fst (setStatus None utc_zone 1000 (Some ex_admin) 1 ''rejected'' ex_db),
       snd (setStatus None utc_zone 1000 (Some ex_admin) 1 ''rejected'' ex_db))" by simp
  note T = reject_changes_only_status [OF h1 h2]
  have p: "premiumPayments ex_db = [ex_payment]" "listings ex_db = [ex_listing]"
    by (simp_all add: ex_db_def)
  have i: "pp_id ex_payment = 1" "pp_expiresAt ex_payment = None" by (simp_all add: ex_payment_def)
  from T h1 show ?thesis by (simp add: p i)
qed

lemma premiumTiers_submit [simp]:
  "premiumTiers (snd (submit now reqUser file listingId tierId d)) = premiumTiers d"
  by (simp add: submit_def Let_def split: option.splits list.splits)

lemma premiumTiers_setStatus [simp]:
  "premiumTiers (snd (setStatus fault z now reqUser paymentId status d)) = premiumTiers d"
  by (simp add: setStatus_def write_defs Let_def split: option.splits list.splits)

lemma submit_inv:
  assumes "payments_inv d"
  shows "payments_inv (snd (submit now reqUser file listingId tierId d))"
proof -
  have new: "filter (\<lambda>t. pt_id t = tid) (premiumTiers d) = tier # ts \<Longrightarrow>
      \<exists>t \<in> set (premiumTiers d). pt_id t = tid" for tid tier ts
    using filter_Cons_mem [of "\<lambda>t. pt_id t = tid" "premiumTiers d" tier ts] by blast
  show ?thesis
    using assms new
    by (auto simp: submit_def payments_inv_def approved_has_expiry_def tier_present_def Let_def
        split: option.splits list.splits)
qed

lemma write_status_inv_other:
  assumes "payments_inv d" "status \<noteq> ''approved''"
  shows "payments_inv (write_status paymentId status d)"
  using assms
  by (auto simp: payments_inv_def approved_has_expiry_def tier_present_def write_status_def
      update_where_def)

lemma write_status_none:
  assumes "filter (\<lambda>p. pp_id p = paymentId) (premiumPayments d) = []"
  shows "write_status paymentId status d = d"
proof -
  have "\<forall>p \<in> set (premiumPayments d). pp_id p \<noteq> paymentId"
    using assms by (simp add: filter_empty_conv)
  then have "map (\<lambda>r. if pp_id r = paymentId then r\<lparr>pp_status := Some status\<rparr> else r)
      (premiumPayments d) = premiumPayments d"
    by (induction "premiumPayments d") (auto simp: map_idI)
  then show ?thesis by (simp add: write_status_def update_where_def)
qed

lemma approved_writes_inv:
  assumes "payments_inv d"
  shows "payments_inv (write_expiresAt (p\<lparr>pp_status := Some ''approved''\<rparr>) e
      (write_listing_premium p' e' (write_status (pp_id p) ''approved'' d)))"
  using assms
  by (auto simp: payments_inv_def approved_has_expiry_def tier_present_def write_defs)

lemma setStatus_inv:
  assumes inv: "payments_inv d"
    and valid: "\<forall>t \<in> set (premiumTiers d). setDate_plus z now (pt_durationDays t) \<noteq> None"
  shows "payments_inv (snd (setStatus None z now reqUser paymentId status d))"
proof (cases reqUser)
  case None
  then show ?thesis using inv by (simp add: setStatus_def)
next
  case (Some usr)
  show ?thesis
  proof (cases "u_isAdmin usr = Some True")
    case False
    then show ?thesis using inv Some by (simp add: setStatus_def)
  next
    case admin: True
    show ?thesis
    proof (cases "status = ''approved''")
      case False
      then show ?thesis
        using Some admin write_status_inv_other [OF inv False]
        by (simp add: setStatus_def Let_def)
    next
      case appr: True
      show ?thesis
      proof (cases "filter (\<lambda>q. pp_id q = paymentId) (premiumPayments d)")
        case Nil
        then show ?thesis
          using Some admin appr inv
          by (simp add: setStatus_def Let_def returned_write_status write_status_none)
      next
        case (Cons p ps)
        have mem: "p \<in> set (premiumPayments d)" and id: "pp_id p = paymentId"
          using filter_Cons_mem [OF Cons] by simp_all
        from inv mem obtain t where "t \<in> set (premiumTiers d)" "pt_id t = pp_tierId p"
          by (auto simp: payments_inv_def tier_present_def)
        then have "filter (\<lambda>t. pt_id t = pp_tierId p) (premiumTiers d) \<noteq> []"
          by (auto simp: filter_empty_conv)
        then obtain tier ts where
          tier: "filter (\<lambda>t. pt_id t = pp_tierId p) (premiumTiers d) = tier # ts"
          by (cases "filter (\<lambda>t. pt_id t = pp_tierId p) (premiumTiers d)") auto
        have "tier \<in> set (premiumTiers d)" using filter_Cons_mem [OF tier] by simp
        with valid obtain e where date: "setDate_plus z now (pt_durationDays tier) = Some e"
          by auto
        show ?thesis
          using setStatus_approved_ok [OF admin Cons tier date]
            approved_writes_inv [OF inv, of p] Some appr
          by simp
      qed
    qed
  qed
qed

lemma run_inv:
  "payments_inv d \<Longrightarrow> expiries_valid z ops d \<Longrightarrow> payments_inv (run z ops d)"
proof (induction z ops d rule: run.induct)
  case (1 z d)
  then show ?case by simp
next
  case (2 z now reqUser proof_file listingId tierId ops d)
  then show ?case by (simp add: submit_inv expiries_valid_def)
next
  case (3 z now reqUser paymentId status ops d)
  then show ?case by (simp add: setStatus_inv expiries_valid_def)
qed

text \<open>
  Claim C8, as amended. After any run of submissions and status changes in which no
  datastore call fails and every expiry that a request can compute is a valid \<open>Date\<close>,
  on a datastore in which every approved payment has an expiry and every payment's tier
  exists, a payment whose status is approved has a non-null \<open>expiresAt\<close>.
\<close>

theorem approved_payment_has_expiry:
  assumes "payments_inv d" and "expiries_valid z ops d"
  shows "\<forall>p \<in> set (premiumPayments (run z ops d)).
           pp_status p = Some ''approved'' \<longrightarrow> pp_expiresAt p \<noteq> None"
  using run_inv [OF assms] by (simp add: payments_inv_def approved_has_expiry_def)

lemma ex_run:
  "premiumPayments (run utc_zone ex_ops ex_db0) =
     [ex_payment\<lparr>pp_status := Some ''rejected'', pp_expiresAt := Some 2592001000\<rparr>]"
  by (simp add: ex_ops_def ex_db0_def ex_defs ex_buyer_def submit_def setStatus_def
      write_defs date_defs Let_def)

lemma ex_run2:
  "premiumPayments (run utc_zone (take 2 ex_ops) ex_db0) =
     [ex_payment\<lparr>pp_status := Some ''approved'', pp_expiresAt := Some 2592001000\<rparr>]"
  by (simp add: ex_ops_def ex_db0_def ex_defs ex_buyer_def submit_def setStatus_def
      write_defs date_defs Let_def)

lemma ex_run_long:
  "premiumPayments (run utc_zone (take 2 ex_ops) ex_db0_long) =
     [ex_payment\<lparr>pp_status := Some ''approved''\<rparr>]"
  by (simp add: ex_ops_def ex_db0_long_def ex_tier_long_def ex_defs ex_buyer_def submit_def
      setStatus_def write_defs date_defs Let_def)

theorem approved_payment_has_expiry_witness:
  "payments_inv ex_db0 \<and> expiries_valid utc_zone (take 2 ex_ops) ex_db0 \<and>
   map pp_status (premiumPayments (run utc_zone (take 2 ex_ops) ex_db0)) = [Some ''approved''] \<and>
   map pp_expiresAt (premiumPayments (run utc_zone (take 2 ex_ops) ex_db0)) = [Some 2592001000]"
proof -
  have h: "payments_inv ex_db0" by (simp add: payments_inv_def ex_db0_def)
  have v: "expiries_valid utc_zone (take 2 ex_ops) ex_db0"
    by (simp add: expiries_valid_def ex_ops_def ex_db0_def ex_tier_def date_defs)
  note T = approved_payment_has_expiry [OF h v]
  from T h v show ?thesis by (simp add: ex_run2 ex_payment_def)
qed

text \<open>
  The claim as stated fails in both directions: a payment that is approved and then
  rejected keeps its expiry, so \<open>expiresAt\<close> is set while the status is not approved; and
  the approval of a payment for a tier of 100000001 days stores the status and then
  fails on the invalid \<open>Date\<close>, so the status is approved while \<open>expiresAt\<close> is null.
\<close>

theorem expiry_without_approved_status:
  "map pp_status (premiumPayments (run utc_zone ex_ops ex_db0)) = [Some ''rejected''] \<and>
   map pp_expiresAt (premiumPayments (run utc_zone ex_ops ex_db0)) = [Some 2592001000] \<and>
   map pp_status (premiumPayments (run utc_zone (take 2 ex_ops) ex_db0_long)) =
     [Some ''approved''] \<and>
   map pp_expiresAt (premiumPayments (run utc_zone (take 2 ex_ops) ex_db0_long)) = [None]"
  by (simp add: ex_run ex_run_long ex_payment_def)

text \<open>
  Claim C10, as amended. The body of the response to a successful approval is the payment
  row as the status update returned it: status approved, and \<open>expiresAt\<close> as it was
  before the request (null for a payment never approved before), while the stored rows of
  that id carry the expiry computed by this request.
\<close>

theorem approval_response_precedes_expiry_write:
  assumes admin: "u_isAdmin usr = Some True"
    and pay: "filter (\<lambda>q. pp_id q = paymentId) (premiumPayments d) = p # ps"
    and tier: "filter (\<lambda>t. pt_id t = pp_tierId p) (premiumTiers d) = tier # ts"
    and date: "setDate_plus z now (pt_durationDays tier) = Some expiresAt"
    and run: "setStatus None z now (Some usr) paymentId ''approved'' d = (res, d')"
  shows "res = Json (Some (p\<lparr>pp_status := Some ''approved''\<rparr>)) \<and>
         (\<forall>q \<in> set (premiumPayments d'). pp_id q = paymentId \<longrightarrow>
            pp_expiresAt q = Some expiresAt)"
proof -
  have id: "pp_id p = paymentId" using filter_Cons_mem [OF pay] by simp
  have r: "res = Json (Some (p\<lparr>pp_status := Some ''approved''\<rparr>))"
    and d': "d' = write_expiresAt (p\<lparr>pp_status := Some ''approved''\<rparr>) expiresAt
        (write_listing_premium (p\<lparr>pp_status := Some ''approved''\<rparr>) expiresAt
          (write_status (pp_id p) ''approved'' d))"
    using run setStatus_approved_ok [OF admin pay tier date] by simp_all
  have "\<forall>q \<in> set (premiumPayments d'). pp_id q = paymentId \<longrightarrow>
      pp_expiresAt q = Some expiresAt"
    unfolding d' payments_after_approval using id by auto
  with r show ?thesis by blast
qed

theorem approval_response_precedes_expiry_write_witness:
  "u_isAdmin ex_admin = Some True \<and>
   filter (\<lambda>q. pp_id q = 1) (premiumPayments ex_db) = [ex_payment] \<and>
   filter (\<lambda>t. pt_id t = pp_tierId ex_payment) (premiumTiers ex_db) = [ex_tier] \<and>
   setDate_plus utc_zone 1000 (pt_durationDays ex_tier) = Some 2592001000 \<and>
   fst (setStatus None utc_zone 1000 (Some ex_admin) 1 ''approved'' ex_db) =
     Json (Some (ex_payment\<lparr>pp_status := Some ''approved''\<rparr>)) \<and>
   pp_expiresAt (ex_payment\<lparr>pp_status := Some ''approved''\<rparr>) = None \<and>
   map pp_expiresAt
     (premiumPayments (snd (setStatus None utc_zone 1000 (Some ex_admin) 1 ''approved'' ex_db)))
     = [Some 2592001000]"
proof -
  have h1: "u_isAdmin ex_admin = Some True" by (simp add: ex_defs)
  have h2: "filter (\<lambda>q. pp_id q = 1) (premiumPayments ex_db) = [ex_payment]"
    by (simp add: ex_defs)
  have h3: "filter (\<lambda>t. pt_id t = pp_tierId ex_payment) (premiumTiers ex_db) = [ex_tier]"
    by (simp add: ex_defs)
  have h4: "setStatus None utc_zone 1000 (Some ex_admin) 1 ''approved'' ex_db =
      (fst (setStatus None utc_zone 1000 (Some ex_admin) 1 ''approved'' ex_db),
       snd (setStatus None utc_zone 1000 (Some ex_admin) 1 ''approved'' ex_db))" by simp
  note T = approval_response_precedes_expiry_write [OF h1 h2 h3 ex_date h4]
  have c: "map pp_expiresAt
      (premiumPayments (snd (setStatus None utc_zone 1000 (Some ex_admin) 1 ''approved'' ex_db))) =
      [Some 2592001000]"
    by (simp add: ex_approve)
  have n: "pp_expiresAt (ex_payment\<lparr>pp_status := Some ''approved''\<rparr>) = None"
    by (simp add: ex_payment_def)
  from T h1 h2 h3 c n ex_date show ?thesis by blast
qed

text \<open>
  The claim as stated fails: the response to a second approval of the same payment
  carries the expiry that the first approval stored, not null.
\<close>

theorem second_approval_response_has_expiry:
  "fst (setStatus None utc_zone 2000 (Some ex_admin) 1 ''approved''
          (snd (setStatus None utc_zone 1000 (Some ex_admin) 1 ''approved'' ex_db))) =
     Json (Some (ex_payment\<lparr>pp_status := Some ''approved'', pp_expiresAt := Some 2592001000\<rparr>))"
  by (simp add: ex_approve)
    (simp add: ex_defs setStatus_def write_defs date_defs Let_def)

text \<open>
  Claim C5. The handler evaluated on a payment id that no row has: the answer to a
  rejection is HTTP 200 with an empty body, the answer to an approval is HTTP 500, and
  neither is 404; the datastore is unchanged.
\<close>

theorem missing_payment_is_not_reported:
  "setStatus None utc_zone 1000 (Some ex_admin) 99 ''rejected'' ex_db = (Json None, ex_db) \<and>
   setStatus None utc_zone 1000 (Some ex_admin) 99 ''approved'' ex_db =
     (Status 500 ''Failed to update payment status'', ex_db)"
  by (simp add: ex_defs setStatus_def write_status_def update_where_def Let_def)

text \<open>
  Claim C2, as amended. An approval is not atomic: its writes are issued one after the
  other outside any transaction. If the first datastore call fails nothing is written; if
  the selection of the tier or the update of the listing fails (the latter also by
  throwing on an invalid expiry), the status of the payment is stored alone; if the
  update of \<open>expiresAt\<close> fails, the status and the listing's premium fields are stored
  and the payment has no new expiry; the answer to each of these is HTTP 500. If no call
  fails all three writes are stored.
\<close>

theorem approval_writes_persist_one_by_one:
  assumes admin: "u_isAdmin usr = Some True"
    and pay: "filter (\<lambda>q. pp_id q = paymentId) (premiumPayments d) = p # ps"
    and tier: "filter (\<lambda>t. pt_id t = pp_tierId p) (premiumTiers d) = tier # ts"
    and run: "setStatus fault z now (Some usr) paymentId ''approved'' d = (res, d')"
  shows "(fault = Some 0 \<longrightarrow> res = Status 500 ''Failed to update payment status'' \<and> d' = d) \<and>
         (fault = Some 1 \<or> fault = Some 2 \<or>
          (fault \<noteq> Some 0 \<and> setDate_plus z now (pt_durationDays tier) = None) \<longrightarrow>
            res = Status 500 ''Failed to update payment status'' \<and>
            d' = d\<lparr>premiumPayments :=
                     map (\<lambda>q. if pp_id q = paymentId then q\<lparr>pp_status := Some ''approved''\<rparr> else q)
                       (premiumPayments d)\<rparr>) \<and>
         (fault = Some 3 \<and> setDate_plus z now (pt_durationDays tier) = Some expiresAt \<longrightarrow>
            res = Status 500 ''Failed to update payment status'' \<and>
            d' = d\<lparr>premiumPayments :=
                     map (\<lambda>q. if pp_id q = paymentId then q\<lparr>pp_status := Some ''approved''\<rparr> else q)
                       (premiumPayments d),
                   listings :=
                     map (\<lambda>l. if l_id l = pp_listingId p
                               then l\<lparr>l_isPremium := Some True,
                                      l_premiumTierId := Some (pp_tierId p),
                                      l_premiumExpiresAt := Some expiresAt\<rparr>
                               else l)
                       (listings d)\<rparr>) \<and>
         (fault \<notin> {Some 0, Some 1, Some 2, Some 3} \<and>
          setDate_plus z now (pt_durationDays tier) = Some expiresAt \<longrightarrow>
            res = Json (Some (p\<lparr>pp_status := Some ''approved''\<rparr>)) \<and>
            d' = d\<lparr>premiumPayments :=
                     map (\<lambda>q. if pp_id q = paymentId
                               then q\<lparr>pp_status := Some ''approved'',
                                      pp_expiresAt := Some expiresAt\<rparr>
                               else q)
                       (premiumPayments d),
                   listings :=
                     map (\<lambda>l. if l_id l = pp_listingId p
                               then l\<lparr>l_isPremium := Some True,
                                      l_premiumTierId := Some (pp_tierId p),
                                      l_premiumExpiresAt := Some expiresAt\<rparr>
                               else l)
                       (listings d)\<rparr>)"
proof -
  have id: "pp_id p = paymentId" using filter_Cons_mem [OF pay] by simp
  note S = setStatus_approved_steps [OF admin pay tier, of fault z now, unfolded run Let_def]
  have 0: "fault = Some 0 \<longrightarrow> res = Status 500 ''Failed to update payment status'' \<and> d' = d"
    using S by auto
  have 1: "fault = Some 1 \<or> fault = Some 2 \<or>
          (fault \<noteq> Some 0 \<and> setDate_plus z now (pt_durationDays tier) = None) \<longrightarrow>
            res = Status 500 ''Failed to update payment status'' \<and>
            d' = d\<lparr>premiumPayments :=
                     map (\<lambda>q. if pp_id q = paymentId then q\<lparr>pp_status := Some ''approved''\<rparr> else q)
                       (premiumPayments d)\<rparr>"
    using S by (auto simp: write_status_def update_where_def split: option.splits)
  have 2: "fault = Some 3 \<and> setDate_plus z now (pt_durationDays tier) = Some expiresAt \<longrightarrow>
            res = Status 500 ''Failed to update payment status'' \<and>
            d' = d\<lparr>premiumPayments :=
                     map (\<lambda>q. if pp_id q = paymentId then q\<lparr>pp_status := Some ''approved''\<rparr> else q)
                       (premiumPayments d),
                   listings :=
                     map (\<lambda>l. if l_id l = pp_listingId p
                               then l\<lparr>l_isPremium := Some True,
                                      l_premiumTierId := Some (pp_tierId p),
                                      l_premiumExpiresAt := Some expiresAt\<rparr>
                               else l)
                       (listings d)\<rparr>"
    using S by (auto simp: write_status_def write_listing_premium_def update_where_def)
  have 3: "fault \<notin> {Some 0, Some 1, Some 2, Some 3} \<and>
          setDate_plus z now (pt_durationDays tier) = Some expiresAt \<longrightarrow>
            res = Json (Some (p\<lparr>pp_status := Some ''approved''\<rparr>)) \<and>
            d' = d\<lparr>premiumPayments :=
                     map (\<lambda>q. if pp_id q = paymentId
                               then q\<lparr>pp_status := Some ''approved'',
                                      pp_expiresAt := Some expiresAt\<rparr>
                               else q)
                       (premiumPayments d),
                   listings :=
                     map (\<lambda>l. if l_id l = pp_listingId p
                               then l\<lparr>l_isPremium := Some True,
                                      l_premiumTierId := Some (pp_tierId p),
                                      l_premiumExpiresAt := Some expiresAt\<rparr>
                               else l)
                       (listings d)\<rparr>"
    using S id by (auto simp: write_defs)
  from 0 1 2 3 show ?thesis by blast
qed

lemma ex_approve_fault3:
  "setStatus (Some 3) utc_zone 1000 (Some ex_admin) 1 ''approved'' ex_db =
     (Status 500 ''Failed to update payment status'',
      ex_db\<lparr>premiumPayments := [ex_payment\<lparr>pp_status := Some ''approved''\<rparr>],
            listings := [ex_listing\<lparr>l_isPremium := Some True, l_premiumTierId := Some 1,
                                   l_premiumExpiresAt := Some 2592001000\<rparr>]\<rparr>)"
  by (simp add: ex_defs setStatus_def write_defs date_defs Let_def)

theorem approval_writes_persist_one_by_one_witness:
  "u_isAdmin ex_admin = Some True \<and>
   filter (\<lambda>q. pp_id q = 1) (premiumPayments ex_db) = [ex_payment] \<and>
   filter (\<lambda>t. pt_id t = pp_tierId ex_payment) (premiumTiers ex_db) = [ex_tier] \<and>
   setDate_plus utc_zone 1000 (pt_durationDays ex_tier) = Some 2592001000 \<and>
   fst (setStatus (Some 3) utc_zone 1000 (Some ex_admin) 1 ''approved'' ex_db) =
     Status 500 ''Failed to update payment status'' \<and>
   snd (setStatus (Some 3) utc_zone 1000 (Some ex_admin) 1 ''approved'' ex_db) =
     ex_db\<lparr>premiumPayments := [ex_payment\<lparr>pp_status := Some ''approved''\<rparr>],
           listings := [ex_listing\<lparr>l_isPremium := Some True, l_premiumTierId := Some 1,
                                  l_premiumExpiresAt := Some 2592001000\<rparr>]\<rparr> \<and>
   setDate_plus utc_zone 1000 (pt_durationDays ex_tier_long) = None \<and>
   snd (setStatus None utc_zone 1000 (Some ex_admin) 1 ''approved'' ex_db_long) =
     ex_db_long\<lparr>premiumPayments := [ex_payment\<lparr>pp_status := Some ''approved''\<rparr>]\<rparr>"
proof -
  have h1: "u_isAdmin ex_admin = Some True" by (simp add: ex_defs)
  have h2: "filter (\<lambda>q. pp_id q = 1) (premiumPayments ex_db) = [ex_payment]"
    by (simp add: ex_defs)
  have h3: "filter (\<lambda>t. pt_id t = pp_tierId ex_payment) (premiumTiers ex_db) = [ex_tier]"
    by (simp add: ex_defs)
  have h4: "setStatus (Some 3) utc_zone 1000 (Some ex_admin) 1 ''approved'' ex_db =
      (fst (setStatus (Some 3) utc_zone 1000 (Some ex_admin) 1 ''approved'' ex_db),
       snd (setStatus (Some 3) utc_zone 1000 (Some ex_admin) 1 ''approved'' ex_db))" by simp
  note T = approval_writes_persist_one_by_one [OF h1 h2 h3 h4, of 2592001000]
  have k2: "filter (\<lambda>q. pp_id q = 1) (premiumPayments ex_db_long) = [ex_payment]"
    by (simp add: ex_db_long_def ex_payment_def)
  have k3: "filter (\<lambda>t. pt_id t = pp_tierId ex_payment) (premiumTiers ex_db_long) =
      [ex_tier_long]"
    by (simp add: ex_db_long_def ex_payment_def ex_tier_long_def)
  have k4: "setStatus None utc_zone 1000 (Some ex_admin) 1 ''approved'' ex_db_long =
      (fst (setStatus None utc_zone 1000 (Some ex_admin) 1 ''approved'' ex_db_long),
       snd (setStatus None utc_zone 1000 (Some ex_admin) 1 ''approved'' ex_db_long))" by simp
  note U = approval_writes_persist_one_by_one [OF h1 k2 k3 k4, of 0]
  have n: "setDate_plus utc_zone 1000 (pt_durationDays ex_tier_long) = None"
    by (simp add: date_defs ex_tier_long_def)
  have c: "fst (setStatus (Some 3) utc_zone 1000 (Some ex_admin) 1 ''approved'' ex_db) =
     Status 500 ''Failed to update payment status''"
    "snd (setStatus (Some 3) utc_zone 1000 (Some ex_admin) 1 ''approved'' ex_db) =
     ex_db\<lparr>premiumPayments := [ex_payment\<lparr>pp_status := Some ''approved''\<rparr>],
           listings := [ex_listing\<lparr>l_isPremium := Some True, l_premiumTierId := Some 1,
                                  l_premiumExpiresAt := Some 2592001000\<rparr>]\<rparr>"
    by (simp_all add: ex_approve_fault3)
  have c2: "snd (setStatus None utc_zone 1000 (Some ex_admin) 1 ''approved'' ex_db_long) =
     ex_db_long\<lparr>premiumPayments := [ex_payment\<lparr>pp_status := Some ''approved''\<rparr>]\<rparr>"
    by (simp add: ex_approve_long)
  from T U h1 h2 h3 ex_date n c c2 show ?thesis by blast
qed

text \<open>
  The claim as stated fails: when the last write of an approval fails, the listing is
  premium and the payment is approved, but the payment has no expiry.
\<close>

theorem failed_approval_leaves_partial_state:
  "fst (setStatus (Some 3) utc_zone 1000 (Some ex_admin) 1 ''approved'' ex_db) =
     Status 500 ''Failed to update payment status'' \<and>
   map l_isPremium
     (listings (snd (setStatus (Some 3) utc_zone 1000 (Some ex_admin) 1 ''approved'' ex_db))) =
     [Some True] \<and>
   map l_premiumExpiresAt
     (listings (snd (setStatus (Some 3) utc_zone 1000 (Some ex_admin) 1 ''approved'' ex_db))) =
     [Some 2592001000] \<and>
   map pp_status
     (premiumPayments (snd (setStatus (Some 3) utc_zone 1000 (Some ex_admin) 1 ''approved'' ex_db))) =
     [Some ''approved''] \<and>
   map pp_expiresAt
     (premiumPayments (snd (setStatus (Some 3) utc_zone 1000 (Some ex_admin) 1 ''approved'' ex_db))) =
     [None]"
  by (simp add: ex_approve_fault3) (simp add: ex_listing_def ex_payment_def)

lemma round_half_bound:
  fixes a b :: int
  assumes "0 < b"
  shows "\<bar>2 * (((2 * a + b) div (2 * b)) * b - a)\<bar> \<le> b"
proof -
  define q where "q = (2 * a + b) div (2 * b)"
  define r where "r = (2 * a + b) mod (2 * b)"
  define m where "m = q * b"
  have "q * (2 * b) + r = 2 * a + b"
    unfolding q_def r_def by (rule div_mult_mod_eq)
  moreover have "q * (2 * b) = 2 * m" unfolding m_def by (simp only: mult.left_commute)
  ultimately have e: "2 * m + r = 2 * a + b" by (simp only:)
  have r: "0 \<le> r" "r < 2 * b" using assms unfolding r_def by simp_all
  have "2 * (m - a) \<le> b" "- (2 * (m - a)) \<le> b" using e r by arith+
  then have "\<bar>2 * (m - a)\<bar> \<le> b" by (simp only: abs_le_iff)
  then show ?thesis unfolding m_def q_def .
qed

lemma pg_int_cast_nearest:
  assumes "0 < b"
  shows "\<bar>2 * (pg_int_cast a b * b - a)\<bar> \<le> b"
proof (cases "0 \<le> a")
  case True
  then show ?thesis using round_half_bound [OF assms, of a] by (simp only: pg_int_cast_def if_True)
next
  case False
  define q where "q = (2 * (- a) + b) div (2 * b)"
  have "2 * (- q * b - a) = - (2 * (q * b - (- a)))" by (simp add: algebra_simps)
  then have "\<bar>2 * (- q * b - a)\<bar> = \<bar>2 * (q * b - (- a))\<bar>"
    by (simp only: abs_minus)
  then have "\<bar>2 * (- ((2 * (- a) + b) div (2 * b)) * b - a)\<bar> =
        \<bar>2 * (((2 * (- a) + b) div (2 * b)) * b - (- a))\<bar>"
    unfolding q_def .
  then show ?thesis
    using round_half_bound [OF assms, of "- a"] False by (simp only: pg_int_cast_def if_False)
qed

lemma limit1_Nil [simp]: "limit1 pick [] = None"
  by (simp add: limit1_def)

lemma limit1_single [simp]: "limit1 pick [x] = Some x"
  by (simp add: limit1_def)

lemma limit1_None [simp]: "(limit1 pick rows = None) = (rows = [])"
  by (simp add: limit1_def)

lemma limit1_Some_ex [simp]: "(\<exists>y. limit1 pick rows = Some y) = (rows \<noteq> [])"
  by (simp add: limit1_def)



lemma previous_view_exists:
  "(limit1 pick (filter (previous_view now listingId ipAddress) rows) \<noteq> None) =
     (\<exists>w \<in> set rows.
        lv_listingId w = listingId \<and> lv_ipAddress w = ipAddress \<and>
        (\<exists>c. lv_createdAt w = Some c \<and> now - 7 * day_ms < c \<and> c < now - 24 * hour_ms))"
  by (auto simp: filter_empty_conv previous_view_def after_def before_def split: option.splits)

lemma recordView_insert:
  assumes "filter (recent_view now listingId ipAddress) (listingViews d) = []"
    and "\<exists>l \<in> set (listings d). l_id l = listingId"
  shows "recordView (Some lookup) pick now reqUser listingId ipAddress userAgent d =
     (Json (View \<lparr>lv_id = listingViews_seq d,
                  lv_listingId = listingId,
                  lv_viewerId = map_option u_id reqUser,
                  lv_ipAddress = ipAddress,
                  lv_userAgent = userAgent,
                  lv_geoLocation = Some (geoLocation_of lookup ipAddress),
                  lv_sessionDuration = None,
                  lv_viewStartTime = Some now,
                  lv_viewEndTime = None,
                  lv_isReturn =
                    Some (filter (previous_view now listingId ipAddress) (listingViews d) \<noteq> []),
                  lv_createdAt = Some now\<rparr>),
      d\<lparr>listingViews := listingViews d @
            [\<lparr>lv_id = listingViews_seq d,
              lv_listingId = listingId,
              lv_viewerId = map_option u_id reqUser,
              lv_ipAddress = ipAddress,
              lv_userAgent = userAgent,
              lv_geoLocation = Some (geoLocation_of lookup ipAddress),
              lv_sessionDuration = None,
              lv_viewStartTime = Some now,
              lv_viewEndTime = None,
              lv_isReturn =
                Some (filter (previous_view now listingId ipAddress) (listingViews d) \<noteq> []),
              lv_createdAt = Some now\<rparr>],
         listingViews_seq := listingViews_seq d + 1\<rparr>)"
  using assms by (simp add: recordView_def Let_def)

text \<open>
  With a geolocation database bound to the name, the handler does what claim C4 says: a
  call that finds no view of the pair in the last hour, for a listing that exists,
  appends a view whose \<open>isReturn\<close> flag is true exactly when some view of the pair was
  created strictly between seven days and twenty-four hours before \<open>now\<close>.
\<close>

lemma recordView_inserts_with_isReturn:
  assumes "filter (recent_view now listingId ipAddress) (listingViews d) = []"
    and "\<exists>l \<in> set (listings d). l_id l = listingId"
  shows "\<exists>v. recordView (Some lookup) pick now reqUser listingId ipAddress userAgent d =
           (Json (View v),
            d\<lparr>listingViews := listingViews d @ [v],
              listingViews_seq := listingViews_seq d + 1\<rparr>) \<and>
         lv_isReturn v =
           Some (\<exists>w \<in> set (listingViews d).
                   lv_listingId w = listingId \<and> lv_ipAddress w = ipAddress \<and>
                   (\<exists>c. lv_createdAt w = Some c \<and> now - 7 * day_ms < c \<and>
                        c < now - 24 * hour_ms))"
  using previous_view_exists [of pick now listingId ipAddress "listingViews d"]
  by (simp add: recordView_insert [OF assms])

text \<open>
  Claim C4. The handler of the repository evaluated on a view of listing 7 from an
  address whose only earlier view of it is two days old (none in the last hour, one
  between seven days and twenty-four hours ago): the name \<open>geoip\<close> is unbound, the answer
  is HTTP 500, and no view is inserted.
\<close>

theorem view_handler_fails_on_unbound_geoip:
  "filter (recent_view 172800000 7 ''10.0.0.1'') (listingViews ex_view_db) = [] \<and>
   filter (previous_view 172800000 7 ''10.0.0.1'') (listingViews ex_view_db) = [ex_view] \<and>
   recordView geoip_of_routes 0 172800000 None 7 ''10.0.0.1'' None ex_view_db =
     (Status 500 ''Failed to track view'', ex_view_db)"
  by (simp add: recordView_def geoip_of_routes_def ex_view_db_def ex_view_def recent_view_def
      previous_view_def after_def before_def day_ms_def hour_ms_def)

text \<open>
  The same request with a geolocation database bound to the name inserts a view with
  \<open>isReturn\<close> true; eight days after the stored view, or two hours after it, the
  inserted view has \<open>isReturn\<close> false.
\<close>

lemma ex_isReturn_two_days:
  "fst (recordView (Some ex_geoip) 0 172800000 None 7 ''10.0.0.1'' None ex_view_db) =
     Json (View (ex_view\<lparr>lv_id := 2, lv_viewStartTime := Some 172800000,
                           lv_isReturn := Some True, lv_createdAt := Some 172800000\<rparr>))"
  by (simp add: recordView_def limit1_def ex_view_db_def ex_view_def ex_listing_def ex_geoip_def
      geoLocation_of_def previous_view_def recent_view_def after_def before_def
      day_ms_def hour_ms_def Let_def)

lemma ex_isReturn_eight_days:
  "fst (recordView (Some ex_geoip) 0 691200000 None 7 ''10.0.0.1'' None ex_view_db) =
     Json (View (ex_view\<lparr>lv_id := 2, lv_viewStartTime := Some 691200000,
                           lv_isReturn := Some False, lv_createdAt := Some 691200000\<rparr>))"
  by (simp add: recordView_def limit1_def ex_view_db_def ex_view_def ex_listing_def ex_geoip_def
      geoLocation_of_def previous_view_def recent_view_def after_def before_def
      day_ms_def hour_ms_def Let_def)

lemma ex_isReturn_two_hours:
  "fst (recordView (Some ex_geoip) 0 7200000 None 7 ''10.0.0.1'' None ex_view_db) =
     Json (View (ex_view\<lparr>lv_id := 2, lv_viewStartTime := Some 7200000,
                           lv_isReturn := Some False, lv_createdAt := Some 7200000\<rparr>))"
  by (simp add: recordView_def limit1_def ex_view_db_def ex_view_def ex_listing_def ex_geoip_def
      geoLocation_of_def previous_view_def recent_view_def after_def before_def
      day_ms_def hour_ms_def Let_def)












lemma getAnalytics_owner:
  assumes "owns usr listingId d"
  shows "getAnalytics now (Some usr) listingId d =
     Json
       \<lparr>r_views = viewsResult_of (views_of listingId d),
        r_hourlyViews =
          map (\<lambda>(h, n). (hour_label h, n))
            (group_count
               (sort (remdups (map hour_of (created_after (now - 24 * hour_ms) (views_of listingId d)))))
               (map hour_of (created_after (now - 24 * hour_ms) (views_of listingId d)))),
        r_dailyViews =
          group_count
            (sort (remdups (map day_of (created_after (now - 7 * day_ms) (views_of listingId d)))))
            (map day_of (created_after (now - 7 * day_ms) (views_of listingId d))),
        r_geoDistribution =
          group_count (remdups (countries_of (views_of listingId d)))
            (countries_of (views_of listingId d)),
        r_messageCount =
          length (filter (\<lambda>m. m_listingId m = Some listingId) (messages d))\<rparr>"
  using assms by (auto simp: getAnalytics_def owns_def Let_def split: list.splits)

lemma getAnalytics_not_owner:
  assumes "\<not> owns usr listingId d"
  shows "getAnalytics now (Some usr) listingId d = Status 403 ''Unauthorized''"
  using assms by (auto simp: getAnalytics_def owns_def Let_def split: list.splits)

text \<open>
  Claim C7. For an authenticated requester the analytics request answers 403 exactly when
  the requester does not own the listing (a listing that does not exist has no owner);
  an owner always gets a report, which for a listing without views has zero counts, a
  null average and empty breakdowns; and the answer is never a 404.
\<close>

theorem analytics_forbidden_iff_not_owner:
  "((getAnalytics now (Some usr) listingId d = Status 403 ''Unauthorized'') =
      (\<not> owns usr listingId d)) \<and>
   (owns usr listingId d \<longrightarrow> (\<exists>rep. getAnalytics now (Some usr) listingId d = Json rep)) \<and>
   (owns usr listingId d \<and> views_of listingId d = [] \<longrightarrow>
      getAnalytics now (Some usr) listingId d =
        Json \<lparr>r_views =
                \<lparr>v_total = 0, v_unique = 0, v_returningVisitors = 0, v_avgDuration = None\<rparr>,
              r_hourlyViews = [], r_dailyViews = [], r_geoDistribution = [],
              r_messageCount =
                length (filter (\<lambda>m. m_listingId m = Some listingId) (messages d))\<rparr>) \<and>
   getAnalytics now (Some usr) listingId d \<noteq> Status 404 msg"
proof (cases "owns usr listingId d")
  case True
  have "views_of listingId d = [] \<Longrightarrow>
      getAnalytics now (Some usr) listingId d =
        Json \<lparr>r_views =
                \<lparr>v_total = 0, v_unique = 0, v_returningVisitors = 0, v_avgDuration = None\<rparr>,
              r_hourlyViews = [], r_dailyViews = [], r_geoDistribution = [],
              r_messageCount =
                length (filter (\<lambda>m. m_listingId m = Some listingId) (messages d))\<rparr>"
    by (simp add: getAnalytics_owner [OF True] viewsResult_of_def avg_int_def created_after_def
        countries_of_def group_count_def)
  then show ?thesis using True by (simp add: getAnalytics_owner [OF True])
next
  case False
  then show ?thesis by (simp add: getAnalytics_not_owner [OF False])
qed

text \<open>
  Claim C6, as amended. In the owner's report \<open>avgDuration\<close> is the mean of the non-null
  session durations of the listing's views, rounded to the nearest integer (not
  truncated), and null when no view has a duration: views without a duration count
  neither in the sum nor in the number of values.
\<close>

theorem avgDuration_is_rounded_mean:
  assumes own: "owns usr listingId d"
    and ds: "ds = map the (filter (\<lambda>x. x \<noteq> None) (map lv_sessionDuration (views_of listingId d)))"
  shows "\<exists>rep. getAnalytics now (Some usr) listingId d = Json rep \<and>
           v_avgDuration (r_views rep) =
             (if ds = [] then None else Some (pg_int_cast (sum_list ds) (int (length ds)))) \<and>
           (ds \<noteq> [] \<longrightarrow>
              \<bar>2 * (pg_int_cast (sum_list ds) (int (length ds)) * int (length ds) - sum_list ds)\<bar>
                \<le> int (length ds))"
proof -
  let ?rep = "\<lparr>r_views = viewsResult_of (views_of listingId d),
        r_hourlyViews =
          map (\<lambda>(h, n). (hour_label h, n))
            (group_count
               (sort (remdups (map hour_of (created_after (now - 24 * hour_ms) (views_of listingId d)))))
               (map hour_of (created_after (now - 24 * hour_ms) (views_of listingId d)))),
        r_dailyViews =
          group_count
            (sort (remdups (map day_of (created_after (now - 7 * day_ms) (views_of listingId d)))))
            (map day_of (created_after (now - 7 * day_ms) (views_of listingId d))),
        r_geoDistribution =
          group_count (remdups (countries_of (views_of listingId d)))
            (countries_of (views_of listingId d)),
        r_messageCount =
          length (filter (\<lambda>m. m_listingId m = Some listingId) (messages d))\<rparr>"
  have g: "getAnalytics now (Some usr) listingId d = Json ?rep"
    by (rule getAnalytics_owner [OF own])
  have a: "v_avgDuration (r_views ?rep) =
      (if ds = [] then None else Some (pg_int_cast (sum_list ds) (int (length ds))))"
    by (simp add: viewsResult_of_def avg_int_def ds Let_def)
  have n: "ds \<noteq> [] \<longrightarrow>
      \<bar>2 * (pg_int_cast (sum_list ds) (int (length ds)) * int (length ds) - sum_list ds)\<bar>
        \<le> int (length ds)"
  proof
    assume "ds \<noteq> []"
    then have "0 < int (length ds)" by simp
    then show "\<bar>2 * (pg_int_cast (sum_list ds) (int (length ds)) * int (length ds) - sum_list ds)\<bar>
        \<le> int (length ds)"
      by (rule pg_int_cast_nearest)
  qed
  from g a n show ?thesis by blast
qed

lemma ex_analytics:
  "getAnalytics 5000 (Some ex_buyer) 7 ex_analytics_db =
     Json \<lparr>r_views = \<lparr>v_total = 2, v_unique = 2, v_returningVisitors = 0, v_avgDuration = Some 10\<rparr>,
           r_hourlyViews = [(hour_label 0, 2)], r_dailyViews = [(0, 2)],
           r_geoDistribution = [], r_messageCount = 0\<rparr>"
  by (simp add: getAnalytics_def ex_analytics_db_def ex_buyer_def ex_listing_def ex_view_def
      views_of_def viewsResult_of_def avg_int_def pg_int_cast_def created_after_def after_def
      hour_of_def day_of_def hour_ms_def day_ms_def countries_of_def group_count_def Let_def)

lemma ex_analytics2:
  "getAnalytics 5000 (Some ex_buyer) 7 ex_analytics_db2 =
     Json \<lparr>r_views = \<lparr>v_total = 2, v_unique = 2, v_returningVisitors = 0, v_avgDuration = Some 2\<rparr>,
           r_hourlyViews = [(hour_label 0, 2)], r_dailyViews = [(0, 2)],
           r_geoDistribution = [], r_messageCount = 0\<rparr>"
  by (simp add: getAnalytics_def ex_analytics_db2_def ex_buyer_def ex_listing_def ex_view_def
      views_of_def viewsResult_of_def avg_int_def pg_int_cast_def created_after_def after_def
      hour_of_def day_of_def hour_ms_def day_ms_def countries_of_def group_count_def Let_def)

theorem avgDuration_is_rounded_mean_witness:
  "owns ex_buyer 7 ex_analytics_db \<and>
   map lv_sessionDuration (views_of 7 ex_analytics_db) = [Some 10, None] \<and>
   (\<exists>rep. getAnalytics 5000 (Some ex_buyer) 7 ex_analytics_db = Json rep \<and>
          v_avgDuration (r_views rep) = Some 10)"
proof -
  have h1: "owns ex_buyer 7 ex_analytics_db"
    by (simp add: owns_def ex_analytics_db_def ex_listing_def ex_buyer_def)
  have h2: "map lv_sessionDuration (views_of 7 ex_analytics_db) = [Some 10, None]"
    by (simp add: views_of_def ex_analytics_db_def ex_view_def)
  have h3: "[10] = map the (filter (\<lambda>x. x \<noteq> None)
      (map lv_sessionDuration (views_of 7 ex_analytics_db)))"
    by (simp add: h2)
  note T = avgDuration_is_rounded_mean [OF h1 h3, of 5000]
  have "pg_int_cast (sum_list [10]) (int (length [10::int])) = 10"
    by (simp add: pg_int_cast_def)
  with T have "\<exists>rep. getAnalytics 5000 (Some ex_buyer) 7 ex_analytics_db = Json rep \<and>
          v_avgDuration (r_views rep) = Some 10"
    by auto
  with h1 h2 show ?thesis by blast
qed

text \<open>
  The claim as stated fails: with durations of 1 and 2 seconds the report gives an
  average of 2, while the truncated mean is 1.
\<close>

theorem avgDuration_not_truncated:
  "map lv_sessionDuration (views_of 7 ex_analytics_db2) = [Some 1, Some 2] \<and>
   truncated_mean [1, 2] = 1 \<and>
   getAnalytics 5000 (Some ex_buyer) 7 ex_analytics_db2 =
     Json \<lparr>r_views = \<lparr>v_total = 2, v_unique = 2, v_returningVisitors = 0, v_avgDuration = Some 2\<rparr>,
           r_hourlyViews = [(hour_label 0, 2)], r_dailyViews = [(0, 2)],
           r_geoDistribution = [], r_messageCount = 0\<rparr>"
proof -
  have "map lv_sessionDuration (views_of 7 ex_analytics_db2) = [Some 1, Some 2]"
    by (simp add: views_of_def ex_analytics_db2_def ex_view_def)
  moreover have "truncated_mean [1, 2] = 1" by (simp add: truncated_mean_def)
  ultimately show ?thesis using ex_analytics2 by blast
qed

theorem analytics_forbidden_iff_not_owner_witness:
  "owns ex_buyer 7 ex_analytics_db \<and>
   (\<exists>rep. getAnalytics 5000 (Some ex_buyer) 7 ex_analytics_db = Json rep) \<and>
   \<not> owns ex_admin 7 ex_analytics_db \<and>
   getAnalytics 5000 (Some ex_admin) 7 ex_analytics_db = Status 403 ''Unauthorized'' \<and>
   owns ex_buyer 7 ex_db0 \<and> views_of 7 ex_db0 = [] \<and>
   getAnalytics 5000 (Some ex_buyer) 7 ex_db0 =
     Json \<lparr>r_views =
             \<lparr>v_total = 0, v_unique = 0, v_returningVisitors = 0, v_avgDuration = None\<rparr>,
           r_hourlyViews = [], r_dailyViews = [], r_geoDistribution = [],
           r_messageCount = 0\<rparr>"
proof -
  have h1: "owns ex_buyer 7 ex_analytics_db"
    by (simp add: owns_def ex_analytics_db_def ex_listing_def ex_buyer_def)
  have h2: "\<not> owns ex_admin 7 ex_analytics_db"
    by (simp add: owns_def ex_analytics_db_def ex_listing_def ex_admin_def)
  have h3: "owns ex_buyer 7 ex_db0"
    by (simp add: owns_def ex_db0_def ex_listing_def ex_buyer_def)
  have h4: "views_of 7 ex_db0 = []" by (simp add: views_of_def ex_db0_def)
  have m: "length (filter (\<lambda>m. m_listingId m = Some 7) (messages ex_db0)) = 0"
    by (simp add: ex_db0_def)
  note T1 = analytics_forbidden_iff_not_owner [of 5000 ex_buyer 7 ex_analytics_db]
  note T2 = analytics_forbidden_iff_not_owner [of 5000 ex_admin 7 ex_analytics_db]
  note T3 = analytics_forbidden_iff_not_owner [of 5000 ex_buyer 7 ex_db0]
  have c1: "\<exists>rep. getAnalytics 5000 (Some ex_buyer) 7 ex_analytics_db = Json rep"
    using T1 h1 by blast
  have c2: "getAnalytics 5000 (Some ex_admin) 7 ex_analytics_db = Status 403 ''Unauthorized''"
    using T2 h2 by blast
  have c3: "getAnalytics 5000 (Some ex_buyer) 7 ex_db0 =
     Json \<lparr>r_views =
             \<lparr>v_total = 0, v_unique = 0, v_returningVisitors = 0, v_avgDuration = None\<rparr>,
           r_hourlyViews = [], r_dailyViews = [], r_geoDistribution = [],
           r_messageCount = 0\<rparr>"
    using T3 h3 h4 unfolding m by blast
  from h1 c1 h2 c2 h3 h4 c3 show ?thesis by blast
qed

end
